theory Spec2Isabelle
  imports Main
begin

section \<open>Values and tables of the masking engine\<close>

text \<open>
  The engine of \<^verbatim>\<open>createTextMask.js\<close> receives values from the form state: a stored value
  is a JavaScript string or \<^verbatim>\<open>undefined\<close>. Strings are character lists, offsets are
  natural numbers.
\<close>

datatype jsval = Undefined | Str string

text \<open>JavaScript truthiness of a stored value: \<^verbatim>\<open>undefined\<close> and \<^verbatim>\<open>''\<close> are falsy.\<close>

fun truthy :: "jsval \<Rightarrow> bool" where
  "truthy Undefined = False"
| "truthy (Str s) = (s \<noteq> [])"

text \<open>\<^verbatim>\<open>s.charAt(i)\<close>: the one-character string at offset \<open>i\<close>, the empty string out of range.\<close>

definition charAt :: "string \<Rightarrow> nat \<Rightarrow> string" where
  "charAt s i = (if i < length s then [s ! i] else [])"

text \<open>\<^verbatim>\<open>xs[i]\<close> on a JavaScript array: \<^verbatim>\<open>undefined\<close> (here \<open>None\<close>) for an index out of
  range, negative indices included.\<close>

definition js_nth :: "'a list \<Rightarrow> int \<Rightarrow> 'a option" where
  "js_nth xs i = (if 0 \<le> i \<and> i < int (length xs) then Some (xs ! nat i) else None)"

text \<open>A rule of the mask definition table: a predicate on characters and an optional
  transform. The table maps slot-marker characters to rules, in the order of its keys.\<close>

record rule =
  match :: "char \<Rightarrow> bool"
  transform :: "(char \<Rightarrow> char) option"

type_synonym maskdefs = "(char \<times> rule) list"

definition isSlot :: "maskdefs \<Rightarrow> char \<Rightarrow> bool" where
  "isSlot md c = (map_of md c \<noteq> None)"

text \<open>
  The functions imported from \<^verbatim>\<open>./utils\<close> and the table imported from
  \<^verbatim>\<open>./defaultMaskDefinitions\<close> are parameters of the engine: every theorem about
  \<^verbatim>\<open>createTextMask.js\<close> below holds for any choice of them. The arguments are those of
  the call sites, in their order.
\<close>

record utils =
  applyMask :: "string \<Rightarrow> string \<Rightarrow> string \<Rightarrow> bool \<Rightarrow> bool \<Rightarrow> maskdefs \<Rightarrow> string"
  applyTransform :: "string \<Rightarrow> jsval \<Rightarrow> string \<Rightarrow> maskdefs \<Rightarrow> string"
  firstUnfilledPosition :: "string \<Rightarrow> string \<Rightarrow> string \<Rightarrow> maskdefs \<Rightarrow> nat"
  inputReformat :: "jsval \<Rightarrow> string \<Rightarrow> string \<Rightarrow> bool \<Rightarrow> bool \<Rightarrow> maskdefs \<Rightarrow> string"
  isPatternComplete :: "string \<Rightarrow> string \<Rightarrow> maskdefs \<Rightarrow> bool"
  maskStrip :: "jsval \<Rightarrow> string \<Rightarrow> string \<Rightarrow> maskdefs \<Rightarrow> string"
  charMatchTest :: "string \<Rightarrow> maskdefs \<Rightarrow> char option"
  validCaretPositions :: "string \<Rightarrow> maskdefs \<Rightarrow> nat list"
  defaultMaskDefinitions :: maskdefs

section \<open>Configuration\<close>

text \<open>The options object as the caller passes it: an absent key is \<open>None\<close>. The two
  callbacks are recorded by their presence; their calls are effects of \<open>normalize\<close>.\<close>

record options =
  opt_pattern :: "string option"
  opt_placeholder :: "string option"
  opt_maskDefinitions :: "maskdefs option"
  opt_guide :: "bool option"
  opt_stripMask :: "bool option"
  opt_allowEmpty :: "bool option"
  opt_onChange :: bool
  opt_onCompletePattern :: bool

text \<open>The destructured options with their defaults, together with the two values computed
  once at construction (\<open>validPositions\<close>, \<open>strippedPattern\<close>): the closure that the
  engine's operations share.\<close>

record engine =
  pattern :: string
  placeholder :: string
  maskDefinitions :: maskdefs
  guide :: bool
  stripMask :: bool
  allowEmpty :: bool
  onChange :: bool
  onCompletePattern :: bool
  validPositions :: "nat list"
  strippedPattern :: string

datatype error =
  PatternRequired
| PlaceholderLength
| PatternNotValid
| PlaceholderMatches char

definition default :: "'a \<Rightarrow> 'a option \<Rightarrow> 'a" where
  "default d x = (case x of None \<Rightarrow> d | Some v \<Rightarrow> v)"

definition createTextMask :: "utils \<Rightarrow> options \<Rightarrow> error + engine" where
  "createTextMask U opts =
    (let placeholder' = default ''_'' (opt_placeholder opts);
         maskDefinitions' = default (defaultMaskDefinitions U) (opt_maskDefinitions opts);
         guide' = default True (opt_guide opts);
         stripMask' = default True (opt_stripMask opts);
         allowEmpty' = default False (opt_allowEmpty opts)
     in (case opt_pattern opts of
          None \<Rightarrow> Inl PatternRequired
        | Some pattern' \<Rightarrow>
            (if pattern' = [] then Inl PatternRequired
             else if placeholder' = [] \<or> length placeholder' \<noteq> 1 then Inl PlaceholderLength
             else (let validPositions' = validCaretPositions U pattern' maskDefinitions'
               in (if length validPositions' = 0 then Inl PatternNotValid
                 else (case charMatchTest U placeholder' maskDefinitions' of
                     Some placeholderMatch \<Rightarrow> Inl (PlaceholderMatches placeholderMatch)
                   | None \<Rightarrow>
                       Inr \<lparr> pattern = pattern', placeholder = placeholder',
                             maskDefinitions = maskDefinitions', guide = guide',
                             stripMask = stripMask', allowEmpty = allowEmpty',
                             onChange = opt_onChange opts,
                             onCompletePattern = opt_onCompletePattern opts,
                             validPositions = validPositions',
                             strippedPattern =
                               maskStrip U (Str pattern') pattern' placeholder'
                                 maskDefinitions' \<rparr>))))))"

section \<open>Formatting\<close>

text \<open>The inner \<^verbatim>\<open>format(storeValue, calledFromNormalize = false)\<close>.\<close>

definition format' :: "utils \<Rightarrow> engine \<Rightarrow> jsval \<Rightarrow> bool \<Rightarrow> string" where
  "format' U E storeValue calledFromNormalize =
    (case storeValue of
       Undefined \<Rightarrow>
         applyMask U [] (pattern E) (placeholder E) (guide E) (allowEmpty E) (maskDefinitions E)
     | Str s \<Rightarrow>
         if s = [] then
           applyMask U [] (pattern E) (placeholder E) (guide E) (allowEmpty E) (maskDefinitions E)
         else if \<not> stripMask E \<and> \<not> calledFromNormalize then s
         else applyMask U s (pattern E) (placeholder E) (guide E) (allowEmpty E)
                (maskDefinitions E))"

text \<open>The exported \<^verbatim>\<open>format: storeValue => format(storeValue)\<close>.\<close>

definition format :: "utils \<Rightarrow> engine \<Rightarrow> jsval \<Rightarrow> string" where
  "format U E storeValue = format' U E storeValue False"

section \<open>Normalizing an edit\<close>

text \<open>The callbacks that \<^verbatim>\<open>normalize\<close> triggers: a call made at once, or one handed to
  \<^verbatim>\<open>setTimeout\<close> with its delay in milliseconds.\<close>

datatype callback = OnChange string | OnCompletePattern string

datatype triggered = Now callback | After nat callback

definition hasValueChanged :: "string \<Rightarrow> jsval \<Rightarrow> bool" where
  "hasValueChanged newValue previousValue =
    (Str newValue \<noteq> previousValue \<and> (newValue \<noteq> [] \<or> previousValue \<noteq> Undefined))"

definition transformedValue :: "utils \<Rightarrow> engine \<Rightarrow> jsval \<Rightarrow> jsval \<Rightarrow> string" where
  "transformedValue U E updatedValue previousValue =
    (let inputHandledValue =
           inputReformat U updatedValue (pattern E) (placeholder E) (guide E) (allowEmpty E)
             (maskDefinitions E);
         strippedValue =
           maskStrip U (Str inputHandledValue) (pattern E) (placeholder E) (maskDefinitions E)
     in applyTransform U strippedValue
          (if stripMask E then previousValue
           else Str (maskStrip U previousValue (pattern E) (placeholder E) (maskDefinitions E)))
          (strippedPattern E) (maskDefinitions E))"

text \<open>\<^verbatim>\<open>normalize\<close> returns the new stored value; the callbacks it triggers are listed in
  the order of the source.\<close>

definition normalize :: "utils \<Rightarrow> engine \<Rightarrow> jsval \<Rightarrow> jsval \<Rightarrow> string \<times> triggered list" where
  "normalize U E updatedValue previousValue =
    (let transformed = transformedValue U E updatedValue previousValue;
         formattedValue = format' U E (Str transformed) True;
         newValue = (if stripMask E then transformed else formattedValue);
         changed = hasValueChanged newValue previousValue
     in (newValue,
         (if onChange E \<and> changed then [Now (OnChange newValue)] else []) @
         (if onCompletePattern E
             \<and> isPatternComplete U formattedValue (pattern E) (maskDefinitions E)
             \<and> changed
          then [After 10 (OnCompletePattern newValue)] else [])))"

section \<open>Caret controller\<close>

datatype direction = DirLeft | DirRight

text \<open>What a handler does to the event and to the host input. \<open>SetValue\<close> stands for an
  assignment to \<^verbatim>\<open>target.value\<close>, which the host input allows.\<close>

datatype host_effect =
  Persist
| PreventDefault
| SetSelectionRange "nat option" "nat option"
| SetValue string

text \<open>The loop of \<^verbatim>\<open>goToNearestValidPosition\<close>, from \<open>index\<close> up to
  \<^verbatim>\<open>validPositions.length\<close> included: the first index whose element is greater than
  \<open>position\<close>. Reading past the end gives \<^verbatim>\<open>undefined\<close>, which is not greater.\<close>

function nearestIndexToTheRight :: "nat list \<Rightarrow> nat \<Rightarrow> nat \<Rightarrow> nat option" where
  "nearestIndexToTheRight vps position index =
    (if index \<le> length vps then
       (case js_nth vps (int index) of
          Some element \<Rightarrow>
            if element > position then Some index
            else nearestIndexToTheRight vps position (index + 1)
        | None \<Rightarrow> nearestIndexToTheRight vps position (index + 1))
     else None)"
  by pat_completeness auto
termination
  by (relation "measure (\<lambda>(vps, position, index). Suc (length vps) - index)") auto

declare nearestIndexToTheRight.simps [simp del]

text \<open>The caret position that \<^verbatim>\<open>goToNearestValidPosition\<close> computes. An index that is
  \<^verbatim>\<open>undefined\<close> makes the array read \<^verbatim>\<open>undefined\<close>, also after subtracting one.\<close>

definition nearestValidPosition :: "nat list \<Rightarrow> nat \<Rightarrow> direction \<Rightarrow> nat option" where
  "nearestValidPosition vps position dir =
    (let nearest = nearestIndexToTheRight vps position 0;
         caretPos =
           (case nearest of
              None \<Rightarrow> None
            | Some i \<Rightarrow> if dir = DirLeft then js_nth vps (int i - 1) else js_nth vps (int i))
     in case caretPos of
          None \<Rightarrow> js_nth vps (if dir = DirLeft then 0 else int (length vps) - 1)
        | Some p \<Rightarrow> Some p)"

definition goToNearestValidPosition :: "engine \<Rightarrow> nat \<Rightarrow> direction \<Rightarrow> host_effect list" where
  "goToNearestValidPosition E position dir =
    (let caretPos = nearestValidPosition (validPositions E) position dir
     in [SetSelectionRange caretPos caretPos])"

definition goToFirstUnfilledPosition :: "utils \<Rightarrow> engine \<Rightarrow> string \<Rightarrow> host_effect list" where
  "goToFirstUnfilledPosition U E targetValue =
    (let caretPos =
           firstUnfilledPosition U targetValue (pattern E) (placeholder E) (maskDefinitions E)
     in [SetSelectionRange (Some caretPos) (Some caretPos)])"

text \<open>The host input as the handler reads it: once when the event is dispatched, once in
  the deferred callback.\<close>

record target =
  t_value :: string
  t_selectionStart :: nat
  t_selectionEnd :: nat

record event =
  ev_has_target :: bool
  ev_has_persist :: bool
  ev_type :: string
  ev_key :: string

text \<open>\<^verbatim>\<open>manageCaretPosition\<close>: \<open>before\<close> is the input when the handler runs, \<open>after\<close>
  the input when the deferred callback runs.\<close>

definition manageCaretPosition ::
  "utils \<Rightarrow> engine \<Rightarrow> event \<Rightarrow> target \<Rightarrow> target \<Rightarrow> host_effect list" where
  "manageCaretPosition U E ev before after =
    (if ev_has_target ev then
       (if ev_has_persist ev then [Persist] else []) @
       (let previousSelection = t_selectionStart before;
            previousValue = t_value before
        in if ev_type ev = ''change'' then
             (if length (t_value after) = length previousValue + 1
                 \<and> charAt (t_value after) previousSelection
                     = charAt (pattern E) previousSelection
              then goToNearestValidPosition E previousSelection DirLeft
              else goToFirstUnfilledPosition U E (t_value after))
           else if ev_type ev = ''focus'' then goToFirstUnfilledPosition U E (t_value after)
           else if ev_type ev = ''click'' then
             (if t_selectionStart after = t_selectionEnd after then
                (if t_selectionStart after \<in> set (validPositions E) then [PreventDefault]
                 else goToFirstUnfilledPosition U E (t_value after))
              else [])
           else if ev_type ev = ''keydown'' then
             (if ev_key ev = ''ArrowLeft'' then
                goToNearestValidPosition E (t_selectionStart after) DirLeft
              else if ev_key ev = ''ArrowRight'' then
                goToNearestValidPosition E previousSelection DirRight
              else [])
           else [])
     else [])"

section \<open>The helpers as the specification describes them\<close>

text \<open>
  Modelled from the spec: the file \<^verbatim>\<open>utils.js\<close> and the table
  \<^verbatim>\<open>defaultMaskDefinitions.js\<close> are not among the source files. The definitions of
  this section follow sections 4.1 to 4.6 of the specification and give one concrete
  choice of the parameters above.
\<close>

text \<open>Modelled from the spec: \<^verbatim>\<open>defaultMaskDefinitions\<close> is missing; section 6 names a
  digit class and a letter class, and the scenarios of section 8 use \<^verbatim>\<open>9\<close> for digits.\<close>

definition spec_defaultMaskDefinitions :: maskdefs where
  "spec_defaultMaskDefinitions =
    [(CHR ''9'', \<lparr> match = (\<lambda>c. c \<in> set ''0123456789''), transform = None \<rparr>),
     (CHR ''A'', \<lparr> match = (\<lambda>c. c \<in> set ''abcdefghijklmnopqrstuvwxyzABCDEFGHIJKLMNOPQRSTUVWXYZ''),
                  transform = None \<rparr>)]"

text \<open>Modelled from the spec: \<^verbatim>\<open>charMatchTest\<close> is missing; section 4.1: the first table
  key whose predicate matches the character, else none.\<close>

definition spec_charMatchTest :: "string \<Rightarrow> maskdefs \<Rightarrow> char option" where
  "spec_charMatchTest s md =
    (case s of
       [c] \<Rightarrow> (case filter (\<lambda>(k, r). match r c) md of [] \<Rightarrow> None | (k, r) # _ \<Rightarrow> Some k)
     | _ \<Rightarrow> None)"

text \<open>Modelled from the spec: \<^verbatim>\<open>validCaretPositions\<close> is missing; section 4.1: every slot
  position, ascending (the position after a literal run that precedes a slot is that
  slot's position).\<close>

definition spec_validCaretPositions :: "string \<Rightarrow> maskdefs \<Rightarrow> nat list" where
  "spec_validCaretPositions pat md = filter (\<lambda>i. isSlot md (pat ! i)) [0..<length pat]"

text \<open>Modelled from the spec: \<^verbatim>\<open>maskStrip\<close> is missing; section 4.3: a character is kept
  iff its pattern position is a slot and it is not the placeholder. An \<^verbatim>\<open>undefined\<close>
  value is read as the empty string.\<close>

fun strip_walk :: "maskdefs \<Rightarrow> string \<Rightarrow> string \<Rightarrow> string \<Rightarrow> string" where
  "strip_walk md ph (c # cs) (p # ps) =
     (if isSlot md p \<and> [c] \<noteq> ph then c # strip_walk md ph cs ps else strip_walk md ph cs ps)"
| "strip_walk md ph _ _ = []"

definition spec_maskStrip :: "jsval \<Rightarrow> string \<Rightarrow> string \<Rightarrow> maskdefs \<Rightarrow> string" where
  "spec_maskStrip v pat ph md =
    (case v of Undefined \<Rightarrow> [] | Str formatted \<Rightarrow> strip_walk md ph formatted pat)"

text \<open>Modelled from the spec: \<^verbatim>\<open>inputReformat\<close> is missing; section 4.4: it strips the
  edited value against the pattern and returns the stripped value.\<close>

definition spec_inputReformat ::
  "jsval \<Rightarrow> string \<Rightarrow> string \<Rightarrow> bool \<Rightarrow> bool \<Rightarrow> maskdefs \<Rightarrow> string" where
  "spec_inputReformat v pat ph g ae md = spec_maskStrip v pat ph md"

text \<open>Modelled from the spec: \<^verbatim>\<open>applyTransform\<close> is missing; section 4.5: a position
  beyond the previous stripped value, or whose character differs from it, gets the
  transform of its slot; the others pass through.\<close>

fun transform_walk :: "maskdefs \<Rightarrow> string \<Rightarrow> string \<Rightarrow> string \<Rightarrow> string" where
  "transform_walk md [] prev sp = []"
| "transform_walk md (c # cs) prev sp =
     (let unchanged = (case prev of [] \<Rightarrow> False | q # _ \<Rightarrow> q = c);
          f = (case sp of [] \<Rightarrow> None
               | m # _ \<Rightarrow> (case map_of md m of None \<Rightarrow> None | Some r \<Rightarrow> transform r))
      in (if unchanged then c else (case f of None \<Rightarrow> c | Some t \<Rightarrow> t c))
         # transform_walk md cs (tl prev) (tl sp))"

definition spec_applyTransform :: "string \<Rightarrow> jsval \<Rightarrow> string \<Rightarrow> maskdefs \<Rightarrow> string" where
  "spec_applyTransform strippedNew strippedPrev sp md =
    transform_walk md strippedNew (case strippedPrev of Undefined \<Rightarrow> [] | Str s \<Rightarrow> s) sp"

text \<open>Modelled from the spec: \<^verbatim>\<open>applyMask\<close> is missing; section 4.2. The walk keeps the
  rest of the pattern, the rest of the raw input, the output so far and the length of the
  output up to the last filled slot. A literal is emitted and absorbs a pending raw
  character equal to it; a slot takes the next raw character that satisfies its predicate
  (the ones before it are dropped) with the slot's transform; with no raw character left
  it emits the placeholder under \<open>guide\<close> and otherwise stops, truncating the output to
  the last filled slot.\<close>

fun mask_walk :: "maskdefs \<Rightarrow> string \<Rightarrow> bool \<Rightarrow> string \<Rightarrow> string \<Rightarrow> string \<Rightarrow> nat \<Rightarrow> string" where
  "mask_walk md ph g [] raw out filled = out"
| "mask_walk md ph g (p # ps) raw out filled =
     (case map_of md p of
        None \<Rightarrow>
          mask_walk md ph g ps (case raw of [] \<Rightarrow> [] | c # cs \<Rightarrow> if c = p then cs else raw)
            (out @ [p]) filled
      | Some r \<Rightarrow>
          (case dropWhile (\<lambda>c. \<not> match r c) raw of
             [] \<Rightarrow> if g then mask_walk md ph g ps [] (out @ ph) filled else take filled out
           | c # cs \<Rightarrow>
               mask_walk md ph g ps cs
                 (out @ [case transform r of None \<Rightarrow> c | Some t \<Rightarrow> t c])
                 (Suc (length out))))"

definition spec_applyMask ::
  "string \<Rightarrow> string \<Rightarrow> string \<Rightarrow> bool \<Rightarrow> bool \<Rightarrow> maskdefs \<Rightarrow> string" where
  "spec_applyMask raw pat ph g ae md =
    (if raw = [] \<and> \<not> ae then [] else mask_walk md ph g pat raw [] 0)"

text \<open>Modelled from the spec: \<^verbatim>\<open>isPatternComplete\<close> is missing; section 6: all slots of
  the pattern are filled in the formatted value.\<close>

definition spec_isPatternComplete :: "string \<Rightarrow> string \<Rightarrow> maskdefs \<Rightarrow> bool" where
  "spec_isPatternComplete formatted pat md =
    list_all (\<lambda>i. case map_of md (pat ! i) of
                     None \<Rightarrow> True
                   | Some r \<Rightarrow> i < length formatted \<and> match r (formatted ! i))
      [0..<length pat]"

text \<open>Modelled from the spec: \<^verbatim>\<open>firstUnfilledPosition\<close> is missing; section 4.6: the
  earliest slot position that holds the placeholder or nothing; after the last slot when
  every slot is filled.\<close>

definition spec_firstUnfilledPosition :: "string \<Rightarrow> string \<Rightarrow> string \<Rightarrow> maskdefs \<Rightarrow> nat" where
  "spec_firstUnfilledPosition v pat ph md =
    (let slots = spec_validCaretPositions pat md
     in case filter (\<lambda>i. charAt v i = ph \<or> charAt v i = []) slots of
          i # _ \<Rightarrow> i
        | [] \<Rightarrow> (case rev slots of [] \<Rightarrow> 0 | l # _ \<Rightarrow> Suc l))"

definition spec_utils :: utils where
  "spec_utils =
    \<lparr> applyMask = spec_applyMask, applyTransform = spec_applyTransform,
      firstUnfilledPosition = spec_firstUnfilledPosition, inputReformat = spec_inputReformat,
      isPatternComplete = spec_isPatternComplete, maskStrip = spec_maskStrip,
      charMatchTest = spec_charMatchTest, validCaretPositions = spec_validCaretPositions,
      defaultMaskDefinitions = spec_defaultMaskDefinitions \<rparr>"

text \<open>A configuration with the default placeholder and table, both callbacks set, and the
  engine that construction gives for it.\<close>

definition spec_options :: "string \<Rightarrow> bool \<Rightarrow> options" where
  "spec_options pat sm =
    \<lparr> opt_pattern = Some pat, opt_placeholder = None, opt_maskDefinitions = None,
      opt_guide = None, opt_stripMask = Some sm, opt_allowEmpty = None,
      opt_onChange = True, opt_onCompletePattern = True \<rparr>"

definition spec_engine :: "string \<Rightarrow> bool \<Rightarrow> engine" where
  "spec_engine pat sm =
    \<lparr> pattern = pat, placeholder = ''_'', maskDefinitions = spec_defaultMaskDefinitions,
      guide = True, stripMask = sm, allowEmpty = False, onChange = True,
      onCompletePattern = True,
      validPositions = spec_validCaretPositions pat spec_defaultMaskDefinitions,
      strippedPattern = spec_maskStrip (Str pat) pat ''_'' spec_defaultMaskDefinitions \<rparr>"

text \<open>The call \<^verbatim>\<open>applyMask(raw, pattern, placeholder, guide, allowEmpty, maskDefinitions)\<close>
  with the engine's configuration, as \<^verbatim>\<open>format\<close> makes it.\<close>

definition engineMask :: "utils \<Rightarrow> engine \<Rightarrow> string \<Rightarrow> string" where
  "engineMask U E raw =
    applyMask U raw (pattern E) (placeholder E) (guide E) (allowEmpty E) (maskDefinitions E)"

text \<open>The string of a stored value, \<^verbatim>\<open>undefined\<close> read as empty.\<close>

fun rawOf :: "jsval \<Rightarrow> string" where
  "rawOf Undefined = []"
| "rawOf (Str s) = s"

text \<open>The local \<^verbatim>\<open>formattedValue\<close> of \<^verbatim>\<open>normalize\<close>.\<close>

definition formattedValue :: "utils \<Rightarrow> engine \<Rightarrow> jsval \<Rightarrow> jsval \<Rightarrow> string" where
  "formattedValue U E updatedValue previousValue =
     format' U E (Str (transformedValue U E updatedValue previousValue)) True"

text \<open>The calls of \<^verbatim>\<open>onCompletePattern\<close> among the triggered callbacks, immediate or
  deferred.\<close>

fun isCompletion :: "triggered \<Rightarrow> bool" where
  "isCompletion (Now (OnCompletePattern v)) = True"
| "isCompletion (After d (OnCompletePattern v)) = True"
| "isCompletion _ = False"

text \<open>
  Two readings of the walk of \<open>spec_applyMask\<close>, used to reason about applying it twice.
  Under \<open>guide\<close> the walk appends to its output a string that depends only on the rest
  of the pattern and the rest of the raw input. Without \<open>guide\<close> it either appends such a
  string or, when a slot finds no character, cuts the output at the last filled slot
  (\<open>None\<close>).
\<close>

fun guideTail :: "maskdefs \<Rightarrow> string \<Rightarrow> string \<Rightarrow> string \<Rightarrow> string" where
  "guideTail md ph [] raw = []"
| "guideTail md ph (p # ps) raw =
     (case map_of md p of
        None \<Rightarrow> p # guideTail md ph ps (case raw of [] \<Rightarrow> [] | c # cs \<Rightarrow> if c = p then cs else raw)
      | Some r \<Rightarrow>
          (case dropWhile (\<lambda>c. \<not> match r c) raw of
             [] \<Rightarrow> ph @ guideTail md ph ps []
           | c # cs \<Rightarrow> (case transform r of None \<Rightarrow> c | Some t \<Rightarrow> t c) # guideTail md ph ps cs))"

fun cutTail :: "maskdefs \<Rightarrow> string \<Rightarrow> string \<Rightarrow> string option" where
  "cutTail md [] raw = Some []"
| "cutTail md (p # ps) raw =
     (case map_of md p of
        None \<Rightarrow>
          (case cutTail md ps (case raw of [] \<Rightarrow> [] | c # cs \<Rightarrow> if c = p then cs else raw) of
             None \<Rightarrow> None
           | Some s \<Rightarrow> Some (p # s))
      | Some r \<Rightarrow>
          (case dropWhile (\<lambda>c. \<not> match r c) raw of
             [] \<Rightarrow> None
           | c # cs \<Rightarrow>
               Some ((case transform r of None \<Rightarrow> c | Some t \<Rightarrow> t c)
                     # (case cutTail md ps cs of None \<Rightarrow> [] | Some s \<Rightarrow> s))))"

text \<open>No literal of the pattern satisfies the predicate of a slot of the pattern.\<close>

definition literalsOutsideSlots :: "maskdefs \<Rightarrow> string \<Rightarrow> bool" where
  "literalsOutsideSlots md pat =
    (\<forall>p \<in> set pat. \<forall>r. map_of md p = Some r \<longrightarrow>
        (\<forall>l \<in> set pat. map_of md l = None \<longrightarrow> \<not> match r l))"

text \<open>The same, and no character of the placeholder satisfies one either.\<close>

definition maskUnambiguous :: "maskdefs \<Rightarrow> string \<Rightarrow> string \<Rightarrow> bool" where
  "maskUnambiguous md ph pat =
    (\<forall>p \<in> set pat. \<forall>r. map_of md p = Some r \<longrightarrow>
        (\<forall>c \<in> set ph. \<not> match r c)
      \<and> (\<forall>l \<in> set pat. map_of md l = None \<longrightarrow> \<not> match r l))"

text \<open>Every transform of a slot of the pattern maps a character of the slot's class to a
  character of that class which it leaves unchanged.\<close>

definition transformsStable :: "maskdefs \<Rightarrow> string \<Rightarrow> bool" where
  "transformsStable md pat =
    (\<forall>p \<in> set pat. \<forall>r t. map_of md p = Some r \<longrightarrow> transform r = Some t \<longrightarrow>
        (\<forall>c. match r c \<longrightarrow> match r (t c) \<and> t (t c) = t c))"

section \<open>Facts about the lookup loop and the sample configuration\<close>

lemma spec_utils_sel [simp]:
  "applyMask spec_utils = spec_applyMask"
  "applyTransform spec_utils = spec_applyTransform"
  "firstUnfilledPosition spec_utils = spec_firstUnfilledPosition"
  "inputReformat spec_utils = spec_inputReformat"
  "isPatternComplete spec_utils = spec_isPatternComplete"
  "maskStrip spec_utils = spec_maskStrip"
  "charMatchTest spec_utils = spec_charMatchTest"
  "validCaretPositions spec_utils = spec_validCaretPositions"
  "defaultMaskDefinitions spec_utils = spec_defaultMaskDefinitions"
  by (simp_all add: spec_utils_def)

lemma date_positions: "spec_validCaretPositions ''99/99'' spec_defaultMaskDefinitions = [0, 1, 3, 4]"
  by code_simp

lemma date_stripped: "spec_maskStrip (Str ''99/99'') ''99/99'' ''_'' spec_defaultMaskDefinitions = ''9999''"
  by code_simp

lemma placeholder_no_match: "spec_charMatchTest ''_'' spec_defaultMaskDefinitions = None"
  by code_simp

lemma create_date:
  "createTextMask spec_utils (spec_options ''99/99'' sm) = Inr (spec_engine ''99/99'' sm)"
  by (simp add: createTextMask_def spec_options_def spec_engine_def default_def
      date_positions placeholder_no_match Let_def)

lemma js_nth_nat: "js_nth xs (int i) = (if i < length xs then Some (xs ! i) else None)"
  by (simp add: js_nth_def)

lemma nearestIndex_takeWhile:
  "index \<le> length vps \<Longrightarrow>
   nearestIndexToTheRight vps position index =
     (let n = index + length (takeWhile (\<lambda>v. v \<le> position) (drop index vps))
      in if n < length vps then Some n else None)"
proof (induction vps position index rule: nearestIndexToTheRight.induct)
  case (1 vps position index)
  show ?case
  proof (cases "index < length vps")
    case False
    with "1.prems" have "index = length vps" by simp
    then show ?thesis
      by (subst nearestIndexToTheRight.simps, subst nearestIndexToTheRight.simps)
         (simp add: js_nth_nat)
  next
    case True
    then have d: "drop index vps = vps ! index # drop (Suc index) vps"
      by (simp add: Cons_nth_drop_Suc)
    show ?thesis
    proof (cases "vps ! index > position")
      case gt: True
      with True d show ?thesis
        by (subst nearestIndexToTheRight.simps) (simp add: js_nth_nat)
    next
      case le: False
      have "nearestIndexToTheRight vps position index
              = nearestIndexToTheRight vps position (index + 1)"
        using True le by (subst nearestIndexToTheRight.simps) (simp add: js_nth_nat)
      also have "\<dots> = (let n = (index + 1) + length (takeWhile (\<lambda>v. v \<le> position) (drop (index + 1) vps))
            in if n < length vps then Some n else None)"
        using "1.IH" True le by (simp add: js_nth_nat)
      finally show ?thesis using le d by simp
    qed
  qed
qed

lemma nearestIndex_0:
  "nearestIndexToTheRight vps position 0 =
     (let n = length (takeWhile (\<lambda>v. v \<le> position) vps)
      in if n < length vps then Some n else None)"
  using nearestIndex_takeWhile[of 0 vps position] by simp

lemma nearestIndex_Some_less:
  "nearestIndexToTheRight vps position 0 = Some i \<Longrightarrow> i < length vps"
  by (simp add: nearestIndex_0 Let_def split: if_splits)

lemma js_nth_Some_mem: "js_nth xs i = Some x \<Longrightarrow> x \<in> set xs"
  by (auto simp: js_nth_def split: if_splits)

lemma nearestValidPosition_defined:
  "vps \<noteq> [] \<Longrightarrow> \<exists>p. nearestValidPosition vps position dir = Some p \<and> p \<in> set vps"
proof -
  assume ne: "vps \<noteq> []"
  have fb: "\<exists>p. js_nth vps (if dir = DirLeft then 0 else int (length vps) - 1) = Some p"
    using ne by (cases vps) (auto simp: js_nth_def)
  show ?thesis
    using fb by (auto simp: nearestValidPosition_def Let_def split: option.splits
        dest: js_nth_Some_mem)
qed

lemma takeWhile_short:
  "\<exists>v \<in> set vps. position < v \<Longrightarrow>
   length (takeWhile (\<lambda>v. v \<le> (position::nat)) vps) < length vps"
  by (induction vps) auto

lemma nearest_left_some_greater:
  assumes "\<exists>v \<in> set vps. position < v"
  shows "nearestValidPosition vps position DirLeft =
     Some (case takeWhile (\<lambda>v. v \<le> position) vps of [] \<Rightarrow> hd vps | v # vs \<Rightarrow> last (v # vs))"
proof -
  let ?t = "takeWhile (\<lambda>v. v \<le> position) vps"
  have lt: "length ?t < length vps" using assms by (rule takeWhile_short)
  then have ne: "vps \<noteq> []" by auto
  have idx: "nearestIndexToTheRight vps position 0 = Some (length ?t)"
    using lt by (simp add: nearestIndex_0 Let_def)
  show ?thesis
  proof (cases ?t)
    case Nil
    with idx ne show ?thesis
      by (simp add: nearestValidPosition_def Let_def js_nth_def hd_conv_nth)
  next
    case (Cons v vs)
    then have "?t \<noteq> []" by simp
    have "length ?t - 1 < length ?t" using \<open>?t \<noteq> []\<close> by simp
    then have "?t ! (length ?t - 1) = vps ! (length ?t - 1)" by (rule takeWhile_nth)
    then have "vps ! (length ?t - 1) = ?t ! (length ?t - 1)" by (rule sym)
    also have "\<dots> = last ?t" using \<open>?t \<noteq> []\<close> by (simp add: last_conv_nth)
    finally have "vps ! (length ?t - 1) = last ?t" .
    then have nth: "js_nth vps (int (length ?t - 1)) = Some (last ?t)"
      using lt by (simp add: js_nth_nat)
    have "int (length ?t) - 1 = int (length ?t - 1)" using \<open>?t \<noteq> []\<close> by (cases ?t) simp_all
    then have "js_nth vps (int (length ?t) - 1) = Some (last ?t)"
      using nth by (simp only:)
    then have "nearestValidPosition vps position DirLeft = Some (last ?t)"
      unfolding nearestValidPosition_def idx by (simp add: Let_def)
    then show ?thesis unfolding Cons by (simp only: list.case)
  qed
qed

lemma nearest_left_none_greater:
  assumes "\<forall>v \<in> set vps. v \<le> position"
  shows "nearestValidPosition vps position DirLeft = js_nth vps 0"
proof -
  have tw: "takeWhile (\<lambda>v. v \<le> position) vps = vps"
    using assms by (simp add: takeWhile_eq_all_conv)
  have "nearestIndexToTheRight vps position 0 = None"
    unfolding nearestIndex_0 tw by (simp add: Let_def)
  then show ?thesis by (simp add: nearestValidPosition_def)
qed

lemma nearest_right:
  "nearestValidPosition vps position DirRight =
    (case dropWhile (\<lambda>v. v \<le> position) vps of
       [] \<Rightarrow> js_nth vps (int (length vps) - 1)
     | v # vs \<Rightarrow> Some v)"
proof (cases "length (takeWhile (\<lambda>v. v \<le> position) vps) < length vps")
  case True
  let ?n = "length (takeWhile (\<lambda>v. v \<le> position) vps)"
  have "dropWhile (\<lambda>v. v \<le> position) vps = drop ?n vps" by (simp add: dropWhile_eq_drop)
  also have "\<dots> = vps ! ?n # drop (Suc ?n) vps" using True by (simp add: Cons_nth_drop_Suc)
  finally show ?thesis using True
    by (simp add: nearestValidPosition_def nearestIndex_0 Let_def js_nth_nat)
next
  case False
  then have "length (takeWhile (\<lambda>v. v \<le> position) vps) = length vps"
    using length_takeWhile_le[of "\<lambda>v. v \<le> position" vps] by simp
  then have dw: "dropWhile (\<lambda>v. v \<le> position) vps = []"
    by (simp add: dropWhile_eq_drop)
  have "nearestIndexToTheRight vps position 0 = None"
    unfolding nearestIndex_0 using False by (simp add: Let_def)
  then show ?thesis
    unfolding nearestValidPosition_def dw by simp
qed

lemma createTextMask_validPositions:
  "createTextMask U opts = Inr E \<Longrightarrow> validPositions E \<noteq> []"
  by (auto simp: createTextMask_def Let_def split: option.splits if_splits)

lemma paren_positions: "spec_validCaretPositions ''(99)'' spec_defaultMaskDefinitions = [1, 2]"
  by code_simp

lemma create_paren:
  "createTextMask spec_utils (spec_options ''(99)'' sm) = Inr (spec_engine ''(99)'' sm)"
  by (simp add: createTextMask_def spec_options_def spec_engine_def default_def
      paren_positions placeholder_no_match Let_def)

lemma collide_positions: "spec_validCaretPositions ''99 1'' spec_defaultMaskDefinitions = [0, 1]"
  by code_simp

lemma create_collide:
  "createTextMask spec_utils (spec_options ''99 1'' sm) = Inr (spec_engine ''99 1'' sm)"
  by (simp add: createTextMask_def spec_options_def spec_engine_def default_def
      collide_positions placeholder_no_match Let_def)

lemma two_positions: "spec_validCaretPositions ''99'' spec_defaultMaskDefinitions = [0, 1]"
  by code_simp

lemma lookup_paren: "nearestValidPosition [Suc 0, 2] 3 DirLeft = Some 1"
  by code_simp

lemma lookup_date_0: "nearestValidPosition [0, Suc 0, 3, 4] 0 DirLeft = Some 0"
  by code_simp

lemma first_unfilled_9: "spec_firstUnfilledPosition ''9_/__'' ''99/99'' ''_'' spec_defaultMaskDefinitions = 1"
  by code_simp

lemma nine_is_slot: "isSlot spec_defaultMaskDefinitions CHR ''9''"
  by code_simp

lemma normalize_empty_undefined: "normalize spec_utils (spec_engine ''99/99'' True) (Str []) Undefined = ([], [])"
  by (simp add: normalize_def transformedValue_def spec_engine_def format'_def Let_def
     spec_inputReformat_def spec_maskStrip_def spec_applyTransform_def hasValueChanged_def)

lemma format_collide_once: "format spec_utils (spec_engine ''99 1'' True) (Str ''5'') = ''5_ 1''"
  by (simp add: format_def format'_def spec_engine_def spec_applyMask_def spec_defaultMaskDefinitions_def)

lemma format_collide_twice: "format spec_utils (spec_engine ''99 1'' True) (Str ''5_ 1'') = ''51 1''"
  by (simp add: format_def format'_def spec_engine_def spec_applyMask_def spec_defaultMaskDefinitions_def)

lemma normalize_two_digits:
  "normalize spec_utils (spec_engine ''99'' True) (Str ''12'') (Str ''1'')
     = (''12'', [Now (OnChange ''12''), After 10 (OnCompletePattern ''12'')])"
  by code_simp

lemma formatted_two_digits:
  "formattedValue spec_utils (spec_engine ''99'' True) (Str ''12'') (Str ''1'') = ''12''"
  by code_simp

lemma normalize_two_empty:
  "normalize spec_utils (spec_engine ''99'' True) (Str []) Undefined = ([], [])"
  by code_simp

lemma formatted_two_empty:
  "formattedValue spec_utils (spec_engine ''99'' True) (Str []) Undefined = []"
  by code_simp

lemma complete_two:
  "spec_isPatternComplete ''12'' ''99'' spec_defaultMaskDefinitions"
  "\<not> spec_isPatternComplete [] ''99'' spec_defaultMaskDefinitions"
  by code_simp+

lemma mask_date_raw:
  "engineMask spec_utils (spec_engine ''99/99'' True) ''1234'' = ''12/34''"
  by code_simp

lemma first_unfilled_5: "spec_firstUnfilledPosition ''5_/__'' ''99/99'' ''_'' spec_defaultMaskDefinitions = 1"
  by code_simp

subsection \<open>Applying the mask of the specification twice\<close>

lemma mask_walk_guide:
  "mask_walk md ph True ps raw out filled = out @ guideTail md ph ps raw"
  by (induction ps arbitrary: raw out filled)
     (auto split: option.splits list.splits simp del: dropWhile_eq_Nil_conv)

lemma mask_walk_cut:
  "filled \<le> length out \<Longrightarrow>
   mask_walk md ph False ps raw out filled =
     (case cutTail md ps raw of None \<Rightarrow> take filled out | Some s \<Rightarrow> out @ s)"
  by (induction ps arbitrary: raw out filled)
     (auto split: option.splits list.splits simp del: dropWhile_eq_Nil_conv)

lemma maskUnambiguous_Cons: "maskUnambiguous md ph (p # ps) \<Longrightarrow> maskUnambiguous md ph ps"
  unfolding maskUnambiguous_def by (simp (no_asm_use)) blast

lemma transformsStable_Cons: "transformsStable md (p # ps) \<Longrightarrow> transformsStable md ps"
  by (simp add: transformsStable_def)

lemma guideTail_empty_set:
  "set (guideTail md ph ps []) \<subseteq> set ph \<union> {l \<in> set ps. map_of md l = None}"
  by (induction ps) (auto split: option.splits)

lemma stable_char:
  assumes "transformsStable md (p # ps)" "map_of md p = Some r" "match r c"
  shows "match r (case transform r of None \<Rightarrow> c | Some t \<Rightarrow> t c)"
    and "(case transform r of None \<Rightarrow> (case transform r of None \<Rightarrow> c | Some t \<Rightarrow> t c)
          | Some t \<Rightarrow> t (case transform r of None \<Rightarrow> c | Some t \<Rightarrow> t c))
         = (case transform r of None \<Rightarrow> c | Some t \<Rightarrow> t c)"
  using assms by (auto simp: transformsStable_def split: option.splits)

lemma guideTail_idem:
  assumes "maskUnambiguous md ph ps" and "transformsStable md ps"
  shows "guideTail md ph ps (guideTail md ph ps raw) = guideTail md ph ps raw"
  using assms
proof (induction ps arbitrary: raw)
  case Nil
  then show ?case by simp
next
  case (Cons p ps)
  have u: "maskUnambiguous md ph ps" using Cons.prems(1) by (rule maskUnambiguous_Cons)
  have t: "transformsStable md ps" using Cons.prems(2) by (rule transformsStable_Cons)
  note IH = Cons.IH [OF u t]
  show ?case
  proof (cases "map_of md p")
    case None
    then show ?thesis using IH by simp
  next
    case (Some r)
    show ?thesis
    proof (cases "dropWhile (\<lambda>c. \<not> match r c) raw")
      case Nil
      have "\<forall>c \<in> set (ph @ guideTail md ph ps []). \<not> match r c"
      proof
        fix c assume "c \<in> set (ph @ guideTail md ph ps [])"
        then have "c \<in> set ph \<or> (c \<in> set ps \<and> map_of md c = None)"
          using guideTail_empty_set [of md ph ps] by auto
        then show "\<not> match r c"
          using Cons.prems(1) Some unfolding maskUnambiguous_def
          by (simp (no_asm_use)) blast
      qed
      then have "dropWhile (\<lambda>c. \<not> match r c) (ph @ guideTail md ph ps []) = []"
        by (simp only: dropWhile_eq_Nil_conv) 
      then show ?thesis using Some Nil by (simp del: dropWhile_eq_Nil_conv)
    next
      case (Cons c cs)
      then have m: "match r c" by (simp add: dropWhile_eq_Cons_conv)
      let ?c = "case transform r of None \<Rightarrow> c | Some t \<Rightarrow> t c"
      have m': "match r ?c" using Cons.prems(2) Some m by (rule stable_char(1))
      have fx: "(case transform r of None \<Rightarrow> ?c | Some t \<Rightarrow> t ?c) = ?c"
        using Cons.prems(2) Some m by (rule stable_char(2))
      have first: "guideTail md ph (p # ps) raw = ?c # guideTail md ph ps cs"
        using Some Cons by simp
      have "dropWhile (\<lambda>c. \<not> match r c) (?c # guideTail md ph ps cs)
              = ?c # guideTail md ph ps cs"
        using m' by simp
      then have "guideTail md ph (p # ps) (?c # guideTail md ph ps cs)
              = ?c # guideTail md ph ps (guideTail md ph ps cs)"
        using Some fx by (simp del: dropWhile.simps)
      then show ?thesis using first IH by simp
    qed
  qed
qed

lemma cutTail_empty:
  "cutTail md ps raw = None \<Longrightarrow> cutTail md ps [] = None"
  by (induction ps arbitrary: raw) (auto split: option.splits list.splits)

lemma cutTail_idem:
  assumes "transformsStable md ps" and "cutTail md ps raw = Some s"
  shows "cutTail md ps s = Some s"
  using assms
proof (induction ps arbitrary: raw s)
  case Nil
  then show ?case by simp
next
  case (Cons p ps)
  have t: "transformsStable md ps" using Cons.prems(1) by (rule transformsStable_Cons)
  show ?case
  proof (cases "map_of md p")
    case None
    then obtain s' where
      s': "cutTail md ps (case raw of [] \<Rightarrow> [] | c # cs \<Rightarrow> if c = p then cs else raw) = Some s'"
      and s: "s = p # s'"
      using Cons.prems(2) by (auto split: option.splits)
    have "cutTail md ps s' = Some s'" using t s' by (rule Cons.IH)
    then show ?thesis using None s by simp
  next
    case (Some r)
    then obtain c cs where d: "dropWhile (\<lambda>c. \<not> match r c) raw = c # cs"
      using Cons.prems(2) by (auto split: list.splits simp del: dropWhile_eq_Nil_conv)
    then have m: "match r c" by (simp add: dropWhile_eq_Cons_conv)
    let ?c = "case transform r of None \<Rightarrow> c | Some t \<Rightarrow> t c"
    let ?s = "case cutTail md ps cs of None \<Rightarrow> [] | Some s \<Rightarrow> s"
    have s: "s = ?c # ?s" using Cons.prems(2) Some d by simp
    have m': "match r ?c" using Cons.prems(1) Some m by (rule stable_char(1))
    have fx: "(case transform r of None \<Rightarrow> ?c | Some t \<Rightarrow> t ?c) = ?c"
      using Cons.prems(1) Some m by (rule stable_char(2))
    have again: "(case cutTail md ps ?s of None \<Rightarrow> [] | Some s \<Rightarrow> s) = ?s"
    proof (cases "cutTail md ps cs")
      case None
      then have "cutTail md ps [] = None" by (rule cutTail_empty)
      with None show ?thesis by simp
    next
      case (Some s'')
      have "cutTail md ps s'' = Some s''" using t Some by (rule Cons.IH)
      with Some show ?thesis by simp
    qed
    have "dropWhile (\<lambda>c. \<not> match r c) (?c # ?s) = ?c # ?s" using m' by simp
    then have "cutTail md (p # ps) (?c # ?s) = Some (?c # ?s)"
      using Some fx again by (simp del: dropWhile.simps)
    then show ?thesis using s by simp
  qed
qed

lemma spec_applyMask_idem:
  assumes "g \<longrightarrow> maskUnambiguous md ph pat" and "transformsStable md pat"
  shows "spec_applyMask (spec_applyMask raw pat ph g ae md) pat ph g ae md
           = spec_applyMask raw pat ph g ae md"
proof -
  let ?W = "\<lambda>raw. mask_walk md ph g pat raw [] 0"
  have W: "?W (?W raw) = ?W raw" for raw
  proof (cases g)
    case True
    then show ?thesis using assms by (simp add: mask_walk_guide guideTail_idem)
  next
    case False
    show ?thesis
    proof (cases "cutTail md pat raw")
      case None
      then have "cutTail md pat [] = None" by (rule cutTail_empty)
      with None False show ?thesis by (simp add: mask_walk_cut)
    next
      case (Some s)
      have "cutTail md pat s = Some s" using assms(2) Some by (rule cutTail_idem)
      with Some False show ?thesis by (simp add: mask_walk_cut)
    qed
  qed
  show ?thesis
  proof (cases "raw = [] \<and> \<not> ae")
    case True
    then show ?thesis by (auto simp: spec_applyMask_def)
  next
    case False
    then have "spec_applyMask raw pat ph g ae md = ?W raw" by (auto simp: spec_applyMask_def)
    moreover have "spec_applyMask (?W raw) pat ph g ae md = ?W raw"
    proof (cases "?W raw = [] \<and> \<not> ae")
      case True
      then show ?thesis by (auto simp: spec_applyMask_def)
    next
      case False
      then have "spec_applyMask (?W raw) pat ph g ae md = ?W (?W raw)"
        by (auto simp: spec_applyMask_def)
      then show ?thesis using W [of raw] by simp
    qed
    ultimately show ?thesis by simp
  qed
qed

lemma format_twice:
  "format U E (Str (format U E x)) = format U E x \<longleftrightarrow>
     \<not> stripMask E \<or> engineMask U E (engineMask U E (rawOf x)) = engineMask U E (rawOf x)"
  by (cases x) (auto simp: format_def format'_def engineMask_def)

lemma spec_charMatchTest_None:
  "spec_charMatchTest [h] md = None \<Longrightarrow> map_of md p = Some r \<Longrightarrow> \<not> match r h"
proof -
  assume n: "spec_charMatchTest [h] md = None" and m: "map_of md p = Some r"
  from n have "filter (\<lambda>(k, r). match r h) md = []"
    by (simp add: spec_charMatchTest_def split: list.splits prod.splits)
  moreover have "(p, r) \<in> set md" using m by (rule map_of_SomeD)
  ultimately show "\<not> match r h" by (auto simp: filter_empty_conv)
qed

lemma created_placeholder:
  assumes "createTextMask spec_utils opts = Inr E"
  shows "\<exists>h. placeholder E = [h] \<and> spec_charMatchTest [h] (maskDefinitions E) = None"
proof -
  from assms obtain pat where
    E: "length (default ''_'' (opt_placeholder opts)) = 1"
       "spec_charMatchTest (default ''_'' (opt_placeholder opts))
          (default spec_defaultMaskDefinitions (opt_maskDefinitions opts)) = None"
       "placeholder E = default ''_'' (opt_placeholder opts)"
       "maskDefinitions E = default spec_defaultMaskDefinitions (opt_maskDefinitions opts)"
    by (auto simp: createTextMask_def Let_def split: option.splits if_splits)
  from E(1) obtain h where "default ''_'' (opt_placeholder opts) = [h]"
    by (cases "default ''_'' (opt_placeholder opts)") auto
  with E show ?thesis by simp
qed

lemma created_unambiguous:
  assumes "createTextMask spec_utils opts = Inr E"
    and "literalsOutsideSlots (maskDefinitions E) (pattern E)"
  shows "maskUnambiguous (maskDefinitions E) (placeholder E) (pattern E)"
proof -
  from assms(1) obtain h where h: "placeholder E = [h]"
    "spec_charMatchTest [h] (maskDefinitions E) = None"
    using created_placeholder by blast
  have "\<not> match r h" if "map_of (maskDefinitions E) p = Some r" for p r
    using h(2) that by (rule spec_charMatchTest_None)
  then show ?thesis
    using assms(2) h(1) unfolding maskUnambiguous_def literalsOutsideSlots_def by simp
qed

lemma default_literals: "literalsOutsideSlots spec_defaultMaskDefinitions ''99/99''"
  by (simp add: literalsOutsideSlots_def spec_defaultMaskDefinitions_def)

lemma default_stable: "transformsStable spec_defaultMaskDefinitions pat"
  by (auto simp: transformsStable_def spec_defaultMaskDefinitions_def split: if_splits)

section \<open>Properties of the engine\<close>

text \<open>
  C10. When \<open>stripMask\<close> is false, the exported \<open>format\<close> returns every non-empty
  stored value unchanged, without applying the mask, and returns the mask applied to the
  empty string for every falsy stored value (\<^verbatim>\<open>undefined\<close> or the empty string).
\<close>

theorem format_unstripped:
  "\<not> stripMask E \<Longrightarrow>
   format U E storeValue = (if truthy storeValue then rawOf storeValue else engineMask U E [])"
  by (cases storeValue) (simp_all add: format_def format'_def engineMask_def)

theorem format_unstripped_witness:
  "\<not> stripMask (spec_engine ''99/99'' False)
   \<and> format spec_utils (spec_engine ''99/99'' False) (Str ''12/34'') = ''12/34''
   \<and> format spec_utils (spec_engine ''99/99'' False) Undefined
       = engineMask spec_utils (spec_engine ''99/99'' False) []"
  using format_unstripped [of "spec_engine ''99/99'' False" spec_utils "Str ''12/34''"]
    format_unstripped [of "spec_engine ''99/99'' False" spec_utils Undefined]
  by (simp add: spec_engine_def)

text \<open>
  C1. The value that \<open>normalize\<close> returns is computed by reformatting the edited value
  against the pattern (\<open>inputReformat\<close>), stripping the result (\<open>maskStrip\<close>), applying
  the transforms relative to the previous stripped value (\<open>applyTransform\<close>; the previous
  value is stripped first when the store holds formatted values) and formatting
  (\<open>applyMask\<close>). The transformed raw value is returned when \<open>stripMask\<close> is true, the
  formatted value when it is false.
\<close>

theorem normalize_pipeline:
  "fst (normalize U E editedValue previousValue) =
    (let reformatted = inputReformat U editedValue (pattern E) (placeholder E) (guide E)
                         (allowEmpty E) (maskDefinitions E);
         stripped = maskStrip U (Str reformatted) (pattern E) (placeholder E) (maskDefinitions E);
         previousStripped =
           (if stripMask E then previousValue
            else Str (maskStrip U previousValue (pattern E) (placeholder E) (maskDefinitions E)));
         transformed = applyTransform U stripped previousStripped (strippedPattern E)
                         (maskDefinitions E);
         formatted = applyMask U transformed (pattern E) (placeholder E) (guide E)
                       (allowEmpty E) (maskDefinitions E)
     in if stripMask E then transformed else formatted)"
  by (simp add: normalize_def transformedValue_def format'_def Let_def)

text \<open>
  C7. Once construction has succeeded, the caret lookup is defined for every offset and
  every direction: \<open>goToNearestValidPosition\<close> sets a collapsed selection at an element of
  the valid positions, never at \<^verbatim>\<open>undefined\<close>. The operations used after construction
  have no error result; only \<open>createTextMask\<close> has one.
\<close>

theorem caret_lookup_defined:
  "createTextMask U opts = Inr E \<Longrightarrow>
   \<exists>p. p \<in> set (validPositions E)
     \<and> goToNearestValidPosition E position dir = [SetSelectionRange (Some p) (Some p)]"
proof -
  assume "createTextMask U opts = Inr E"
  then have "validPositions E \<noteq> []" by (rule createTextMask_validPositions)
  then obtain p where "nearestValidPosition (validPositions E) position dir = Some p"
    and "p \<in> set (validPositions E)"
    using nearestValidPosition_defined by blast
  then show ?thesis by (auto simp: goToNearestValidPosition_def Let_def)
qed

theorem caret_lookup_defined_witness:
  "createTextMask spec_utils (spec_options ''99/99'' True) = Inr (spec_engine ''99/99'' True)
   \<and> (\<exists>p. p \<in> set (validPositions (spec_engine ''99/99'' True))
        \<and> goToNearestValidPosition (spec_engine ''99/99'' True) 9 DirLeft
            = [SetSelectionRange (Some p) (Some p)])"
  using caret_lookup_defined [OF create_date, of True 9 DirLeft] create_date [of True]
  by simp

text \<open>
  C2. Construction fails exactly when the pattern is absent, or the placeholder is not
  exactly one character, or the pattern has no valid caret position, or the placeholder
  matches a slot (\<open>charMatchTest\<close> returns a marker); otherwise it succeeds and returns
  the engine. The code also refuses the empty pattern by its first check; that case falls
  under the third condition for a \<open>validCaretPositions\<close> that finds no position in an
  empty pattern, which is the hypothesis.
\<close>

theorem createTextMask_error_iff:
  assumes "validCaretPositions U []
             (default (defaultMaskDefinitions U) (opt_maskDefinitions opts)) = []"
  shows "(let invalid =
            (opt_pattern opts = None
             \<or> length (default ''_'' (opt_placeholder opts)) \<noteq> 1
             \<or> (\<exists>pat. opt_pattern opts = Some pat
                  \<and> validCaretPositions U pat
                       (default (defaultMaskDefinitions U) (opt_maskDefinitions opts)) = [])
             \<or> charMatchTest U (default ''_'' (opt_placeholder opts))
                  (default (defaultMaskDefinitions U) (opt_maskDefinitions opts)) \<noteq> None)
          in ((\<exists>e. createTextMask U opts = Inl e) \<longleftrightarrow> invalid)
           \<and> ((\<exists>E. createTextMask U opts = Inr E) \<longleftrightarrow> \<not> invalid))"
  using assms
  by (auto simp: createTextMask_def Let_def split: option.splits if_splits)

theorem createTextMask_error_iff_witness:
  "validCaretPositions spec_utils []
     (default (defaultMaskDefinitions spec_utils)
        (opt_maskDefinitions (spec_options ''99/99'' True))) = []
   \<and> (\<exists>E. createTextMask spec_utils (spec_options ''99/99'' True) = Inr E)
   \<and> (\<exists>e. createTextMask spec_utils
              ((spec_options ''99/99'' True) \<lparr> opt_placeholder := Some ''7'' \<rparr>) = Inl e)"
proof -
  have h1: "validCaretPositions spec_utils []
     (default (defaultMaskDefinitions spec_utils)
        (opt_maskDefinitions (spec_options ''99/99'' True))) = []"
    by (simp add: spec_validCaretPositions_def)
  have h2: "validCaretPositions spec_utils []
     (default (defaultMaskDefinitions spec_utils)
        (opt_maskDefinitions ((spec_options ''99/99'' True) \<lparr> opt_placeholder := Some ''7'' \<rparr>)))
       = []"
    by (simp add: spec_validCaretPositions_def)
  have m: "spec_charMatchTest ''7'' spec_defaultMaskDefinitions = Some CHR ''9''"
    by code_simp
  show ?thesis
    using h1 createTextMask_error_iff [OF h1] createTextMask_error_iff [OF h2]
    by (simp add: Let_def spec_options_def default_def date_positions placeholder_no_match m)
qed

text \<open>
  C8. The handlers only manage the caret: whatever the event, every effect of
  \<open>manageCaretPosition\<close> is a call on the event itself (\<^verbatim>\<open>persist\<close>,
  \<^verbatim>\<open>preventDefault\<close>) or \<^verbatim>\<open>setSelectionRange(pos, pos)\<close> with a collapsed range; the
  value of the input is never written.
\<close>

theorem handlers_only_move_caret:
  "\<forall>x \<in> set (manageCaretPosition U E ev before after).
     x = Persist \<or> x = PreventDefault \<or> (\<exists>pos. x = SetSelectionRange pos pos)"
  by (auto simp: manageCaretPosition_def goToNearestValidPosition_def
      goToFirstUnfilledPosition_def Let_def split: if_splits)

theorem handlers_only_move_caret_witness:
  "SetSelectionRange (Some 1) (Some 1)
     \<in> set (manageCaretPosition spec_utils (spec_engine ''99/99'' True)
          \<lparr> ev_has_target = True, ev_has_persist = True, ev_type = ''focus'', ev_key = [] \<rparr>
          \<lparr> t_value = ''9_/__'', t_selectionStart = 4, t_selectionEnd = 4 \<rparr>
          \<lparr> t_value = ''9_/__'', t_selectionStart = 4, t_selectionEnd = 4 \<rparr>)
   \<and> (\<forall>v. SetValue v
     \<notin> set (manageCaretPosition spec_utils (spec_engine ''99/99'' True)
          \<lparr> ev_has_target = True, ev_has_persist = True, ev_type = ''focus'', ev_key = [] \<rparr>
          \<lparr> t_value = ''9_/__'', t_selectionStart = 4, t_selectionEnd = 4 \<rparr>
          \<lparr> t_value = ''9_/__'', t_selectionStart = 4, t_selectionEnd = 4 \<rparr>))"
proof -
  have "manageCaretPosition spec_utils (spec_engine ''99/99'' True)
          \<lparr> ev_has_target = True, ev_has_persist = True, ev_type = ''focus'', ev_key = [] \<rparr>
          \<lparr> t_value = ''9_/__'', t_selectionStart = 4, t_selectionEnd = 4 \<rparr>
          \<lparr> t_value = ''9_/__'', t_selectionStart = 4, t_selectionEnd = 4 \<rparr>
        = [Persist, SetSelectionRange (Some 1) (Some 1)]"
    by (simp add: manageCaretPosition_def goToFirstUnfilledPosition_def spec_engine_def
        first_unfilled_9 Let_def)
  then show ?thesis
    using handlers_only_move_caret [of spec_utils "spec_engine ''99/99'' True"
        "\<lparr> ev_has_target = True, ev_has_persist = True, ev_type = ''focus'', ev_key = [] \<rparr>"
        "\<lparr> t_value = ''9_/__'', t_selectionStart = 4, t_selectionEnd = 4 \<rparr>"
        "\<lparr> t_value = ''9_/__'', t_selectionStart = 4, t_selectionEnd = 4 \<rparr>"]
    by auto
qed

text \<open>
  C4 (amended). With \<open>onChange\<close> configured, \<open>normalize\<close> calls it, with the new stored
  value, exactly when that value differs from \<open>previousValue\<close> and it is not the case
  that the new value is the empty string while \<open>previousValue\<close> is \<^verbatim>\<open>undefined\<close>: the
  guard of \<open>hasValueChanged\<close> keeps the first empty value of a field from counting as a
  change.
\<close>

theorem onChange_called_iff:
  "Now (OnChange w) \<in> set (snd (normalize U E editedValue previousValue)) \<longleftrightarrow>
     onChange E \<and> w = fst (normalize U E editedValue previousValue)
     \<and> Str w \<noteq> previousValue \<and> \<not> (w = [] \<and> previousValue = Undefined)"
  by (auto simp: normalize_def hasValueChanged_def Let_def)

text \<open>The claim as stated fails for the empty edit of a field that has no value yet: the new
  value \<^verbatim>\<open>''\<close> differs from \<^verbatim>\<open>undefined\<close>, and \<open>onChange\<close> is not called.\<close>

theorem onChange_counterexample:
  "onChange (spec_engine ''99/99'' True)
   \<and> Str (fst (normalize spec_utils (spec_engine ''99/99'' True) (Str []) Undefined)) \<noteq> Undefined
   \<and> Now (OnChange (fst (normalize spec_utils (spec_engine ''99/99'' True) (Str []) Undefined)))
       \<notin> set (snd (normalize spec_utils (spec_engine ''99/99'' True) (Str []) Undefined))"
  by (simp add: normalize_empty_undefined) (simp add: spec_engine_def)

text \<open>
  C5. \<open>normalize\<close> hands \<open>onCompletePattern\<close> (when configured) to the timer exactly
  once, with the new stored value and a delay of 10 ms, when the new stored value differs
  from the previous one and \<open>isPatternComplete\<close> holds of the formatted value; otherwise
  it does not call it at all, and it never calls it at once. The hypothesis covers the
  one case that \<open>hasValueChanged\<close> does not count as a change (an empty new value after
  \<^verbatim>\<open>undefined\<close>): there the formatted value is not complete.
\<close>

theorem onCompletePattern_deferred_once:
  assumes "previousValue = Undefined \<and> fst (normalize U E editedValue previousValue) = []
    \<longrightarrow> \<not> isPatternComplete U (formattedValue U E editedValue previousValue) (pattern E)
          (maskDefinitions E)"
  shows "filter isCompletion (snd (normalize U E editedValue previousValue)) =
    (if onCompletePattern E
        \<and> isPatternComplete U (formattedValue U E editedValue previousValue) (pattern E)
            (maskDefinitions E)
        \<and> Str (fst (normalize U E editedValue previousValue)) \<noteq> previousValue
     then [After 10 (OnCompletePattern (fst (normalize U E editedValue previousValue)))]
     else [])"
  using assms
  by (auto simp: normalize_def formattedValue_def hasValueChanged_def Let_def)

theorem onCompletePattern_deferred_once_witness:
  "\<not> isPatternComplete spec_utils
       (formattedValue spec_utils (spec_engine ''99'' True) (Str []) Undefined)
       (pattern (spec_engine ''99'' True)) (maskDefinitions (spec_engine ''99'' True))
   \<and> filter isCompletion (snd (normalize spec_utils (spec_engine ''99'' True) (Str []) Undefined))
       = []
   \<and> filter isCompletion
        (snd (normalize spec_utils (spec_engine ''99'' True) (Str ''12'') (Str ''1'')))
       = [After 10 (OnCompletePattern ''12'')]"
proof -
  have h: "\<not> isPatternComplete spec_utils
       (formattedValue spec_utils (spec_engine ''99'' True) (Str []) Undefined)
       (pattern (spec_engine ''99'' True)) (maskDefinitions (spec_engine ''99'' True))"
    by (simp add: formatted_two_empty) (simp add: spec_engine_def complete_two)
  show ?thesis
    using h
      onCompletePattern_deferred_once [of Undefined spec_utils "spec_engine ''99'' True" "Str []"]
      onCompletePattern_deferred_once [of "Str ''1''" spec_utils "spec_engine ''99'' True"
        "Str ''12''"]
    by (simp add: normalize_two_digits normalize_two_empty formatted_two_digits)
qed




text \<open>
  C6, the code at an input where it departs from the claim. Under the pattern
  \<^verbatim>\<open>99/99\<close> the first \<^verbatim>\<open>9\<close> of \<^verbatim>\<open>99/__\<close> is deleted: the handler reads the value
  \<^verbatim>\<open>9/__\<close> and the caret 0, the deferred callback the value \<^verbatim>\<open>9_/__\<close>. The pattern
  holds the slot marker \<^verbatim>\<open>9\<close> at offset 0, which is no literal, and the value holds the
  digit \<^verbatim>\<open>9\<close> there: the two are equal, the branch for a backspace over a pattern
  character is taken and the caret is put at 0, not at the first unfilled position 1. The
  same edit with the digit \<^verbatim>\<open>5\<close> puts the caret at 1.
\<close>

theorem change_deleted_digit_like_marker:
  "isSlot (maskDefinitions (spec_engine ''99/99'' True)) (pattern (spec_engine ''99/99'' True) ! 0)
   \<and> manageCaretPosition spec_utils (spec_engine ''99/99'' True)
        \<lparr> ev_has_target = True, ev_has_persist = False, ev_type = ''change'', ev_key = [] \<rparr>
        \<lparr> t_value = ''9/__'', t_selectionStart = 0, t_selectionEnd = 0 \<rparr>
        \<lparr> t_value = ''9_/__'', t_selectionStart = 0, t_selectionEnd = 0 \<rparr>
      = [SetSelectionRange (Some 0) (Some 0)]
   \<and> goToFirstUnfilledPosition spec_utils (spec_engine ''99/99'' True) ''9_/__''
      = [SetSelectionRange (Some 1) (Some 1)]
   \<and> manageCaretPosition spec_utils (spec_engine ''99/99'' True)
        \<lparr> ev_has_target = True, ev_has_persist = False, ev_type = ''change'', ev_key = [] \<rparr>
        \<lparr> t_value = ''5/__'', t_selectionStart = 0, t_selectionEnd = 0 \<rparr>
        \<lparr> t_value = ''5_/__'', t_selectionStart = 0, t_selectionEnd = 0 \<rparr>
      = [SetSelectionRange (Some 1) (Some 1)]"
  by (simp add: manageCaretPosition_def goToNearestValidPosition_def
      goToFirstUnfilledPosition_def spec_engine_def date_positions lookup_date_0 Let_def
      first_unfilled_9 first_unfilled_5 charAt_def nine_is_slot)

text \<open>
  C3, the code at an input where it departs from the claim. With the valid positions
  \<open>[1, 2]\<close> of the pattern \<^verbatim>\<open>(99)\<close>, the caret at offset 4 and ArrowLeft pressed, the
  deferred callback reads offset 3. No valid position is greater than 3, so the loop
  leaves the index \<^verbatim>\<open>undefined\<close> and the fallback puts the caret at the first valid
  position 1, although the valid position 2 is the nearest one to the left.
\<close>

theorem arrowLeft_past_last_position:
  "createTextMask spec_utils (spec_options ''(99)'' True) = Inr (spec_engine ''(99)'' True)
   \<and> validPositions (spec_engine ''(99)'' True) = [1, 2]
   \<and> manageCaretPosition spec_utils (spec_engine ''(99)'' True)
        \<lparr> ev_has_target = True, ev_has_persist = False, ev_type = ''keydown'',
          ev_key = ''ArrowLeft'' \<rparr>
        \<lparr> t_value = ''(12)'', t_selectionStart = 4, t_selectionEnd = 4 \<rparr>
        \<lparr> t_value = ''(12)'', t_selectionStart = 3, t_selectionEnd = 3 \<rparr>
      = [SetSelectionRange (Some 1) (Some 1)]"
  by (simp add: create_paren manageCaretPosition_def goToNearestValidPosition_def
      spec_engine_def paren_positions lookup_paren Let_def)

end
